theory Spec2Isabelle
  imports Complex_Main "HOL-Library.Word" "HOL-Library.AList"
begin

section \<open>Python values used by the services\<close>

text \<open>
  Python \<open>str\<close> is modelled as \<open>string\<close> (a list of 8-bit characters) and
  \<open>bytes\<close> as a list of 8-bit words. \<open>s.endswith(suf)\<close>, \<open>s.startswith(p)\<close>
  and \<open>sub in s\<close> are the usual tests on the character list.
\<close>

type_synonym bytes = "8 word list"

definition endswith :: "string \<Rightarrow> string \<Rightarrow> bool" where
  "endswith s suf = (length suf \<le> length s \<and> drop (length s - length suf) s = suf)"

definition startswith :: "string \<Rightarrow> string \<Rightarrow> bool" where
  "startswith s p = (take (length p) s = p)"

fun str_contains :: "string \<Rightarrow> string \<Rightarrow> bool" where
  "str_contains sub [] = (sub = [])"
| "str_contains sub (c # cs) = (startswith (c # cs) sub \<or> str_contains sub cs)"

section \<open>AudioHandler (services/audio\_handler.py)\<close>

text \<open>
  The handler owns two directories, \<open>temp\<close> and \<open>permanent\<close>, under its storage
  directory. A directory is the list of its entries in the order the operating system
  lists them, keyed by file name; an entry is a regular file (content and last-modified
  time) or something that is not a regular file. File names are plain names: a name does
  not leave its directory.

  Times are readings of the local clock in microseconds, the resolution of Python's
  \<open>datetime\<close>; \<open>timedelta(hours=h)\<close> is \<open>h * 3600000000\<close> of them. The range
  limits of \<open>datetime\<close> (years 1 to 9999) are not modelled.
\<close>

datatype entry = File bytes int | NotAFile

text \<open>
  What \<open>save_audio\<close> and \<open>get_audio\<close> raise: the \<open>ValueError\<close> of the empty-data
  check with its message, and the \<open>IsADirectoryError\<close> of \<open>open\<close> on a name that is
  not a regular file.
\<close>

datatype audio_exception = AudioValueError string | AudioIsADirectoryError string

type_synonym directory = "(string \<times> entry) list"

record audio_fs =
  temp_dir :: directory
  permanent_dir :: directory

text \<open>
  The metadata dictionary returned by \<open>save_audio\<close>. Its \<open>path\<close> (rendered by the
  operating system), \<open>size_kb\<close> (a float) and \<open>created_at\<close> (clock text) entries are
  left out.
\<close>

record audio_metadata =
  filename :: string
  relative_path :: string
  url :: string
  format :: string
  size_bytes :: nat
  permanent :: bool

text \<open>\<open>open(file_path, 'wb')\<close> followed by \<open>f.write(audio_data)\<close> at clock reading \<open>now\<close>.\<close>

definition write_file :: "directory \<Rightarrow> string \<Rightarrow> bytes \<Rightarrow> int \<Rightarrow> audio_exception + directory" where
  "write_file d name data now =
     (case map_of d name of
        Some NotAFile \<Rightarrow> Inl (AudioIsADirectoryError name)
      | _ \<Rightarrow> Inr (AList.update name (File data now) d))"

text \<open>
  \<open>save_audio\<close>: \<open>unique_id\<close> is the text of the \<open>uuid.uuid4()\<close> drawn by the call,
  \<open>now\<close> the clock reading when the file is written. The optional \<open>filename\<close>
  argument is \<open>None\<close> when the caller gives none.
\<close>

definition save_audio ::
  "audio_fs \<Rightarrow> int \<Rightarrow> string \<Rightarrow> bytes \<Rightarrow> string option \<Rightarrow> bool \<Rightarrow> string
     \<Rightarrow> audio_exception + (audio_metadata \<times> audio_fs)" where
  "save_audio fs now unique_id audio_data filename_arg perm fmt =
     (if audio_data = [] then Inl (AudioValueError ''No audio data provided'')
      else
        let fname =
              (case filename_arg of
                 None \<Rightarrow> ''audio_'' @ unique_id @ ''.'' @ fmt
               | Some f \<Rightarrow>
                   if f = [] then ''audio_'' @ unique_id @ ''.'' @ fmt
                   else if \<not> endswith f (''.'' @ fmt) then f @ ''.'' @ fmt
                   else f);
            target_dir = (if perm then permanent_dir fs else temp_dir fs)
        in case write_file target_dir fname audio_data now of
             Inl e \<Rightarrow> Inl e
           | Inr d' \<Rightarrow>
               Inr (\<lparr> filename = fname,
                      relative_path = ''audio_outputs/'' @ (if perm then ''permanent'' else ''temp'')
                                        @ ''/'' @ fname,
                      url = ''/api/audio/'' @ fname,
                      format = fmt,
                      size_bytes = length audio_data,
                      permanent = perm \<rparr>,
                    if perm then fs\<lparr>permanent_dir := d'\<rparr> else fs\<lparr>temp_dir := d'\<rparr>))"

text \<open>\<open>file_path.exists()\<close> and the read of \<open>get_audio\<close> in one directory.\<close>

definition read_file :: "directory \<Rightarrow> string \<Rightarrow> (audio_exception + bytes) option" where
  "read_file d name =
     (case map_of d name of
        None \<Rightarrow> None
      | Some NotAFile \<Rightarrow> Some (Inl (AudioIsADirectoryError name))
      | Some (File data _) \<Rightarrow> Some (Inr data))"

fun get_audio_in :: "directory list \<Rightarrow> string \<Rightarrow> audio_exception + bytes option" where
  "get_audio_in [] name = Inr None"
| "get_audio_in (d # ds) name =
     (case read_file d name of
        None \<Rightarrow> get_audio_in ds name
      | Some (Inl e) \<Rightarrow> Inl e
      | Some (Inr data) \<Rightarrow> Inr (Some data))"

definition get_audio :: "audio_fs \<Rightarrow> string \<Rightarrow> audio_exception + bytes option" where
  "get_audio fs name = get_audio_in [temp_dir fs, permanent_dir fs] name"

text \<open>
  \<open>directory.glob("*" + suf)\<close>: the names of the directory that end with \<open>suf\<close>
  (pathlib's \<open>*\<close> also matches a leading dot and the empty string).
\<close>

definition glob_suffix :: "directory \<Rightarrow> string \<Rightarrow> string list" where
  "glob_suffix d suf = filter (\<lambda>name. endswith name suf) (map fst d)"

text \<open>
  One \<open>for file_path in self.temp_dir.glob(...)\<close> loop of \<open>cleanup_temp_files\<close>, over
  the names the glob listed: the current directory and \<open>deleted_count\<close> are threaded
  through.
\<close>

fun cleanup_loop :: "int \<Rightarrow> string list \<Rightarrow> directory \<Rightarrow> nat \<Rightarrow> directory \<times> nat" where
  "cleanup_loop cutoff_time [] d deleted_count = (d, deleted_count)"
| "cleanup_loop cutoff_time (name # names) d deleted_count =
     (case map_of d name of
        Some (File data modified_time) \<Rightarrow>
          if modified_time < cutoff_time
          then cleanup_loop cutoff_time names (AList.delete name d) (deleted_count + 1)
          else cleanup_loop cutoff_time names d deleted_count
      | _ \<Rightarrow> cleanup_loop cutoff_time names d deleted_count)"

definition cleanup_temp_files :: "audio_fs \<Rightarrow> int \<Rightarrow> int \<Rightarrow> nat \<times> audio_fs" where
  "cleanup_temp_files fs now max_age_hours =
     (let cutoff_time = now - max_age_hours * 3600000000;
          (d1, c1) = cleanup_loop cutoff_time (glob_suffix (temp_dir fs) ''.wav'') (temp_dir fs) 0;
          (d2, c2) = cleanup_loop cutoff_time (glob_suffix d1 ''.mp3'') d1 c1
      in (c2, fs\<lparr>temp_dir := d2\<rparr>))"

section \<open>JSON values and the Python operations applied to them\<close>

text \<open>
  What \<open>response.json()\<close> and \<open>request.get_json()\<close> return: Python's \<open>None\<close>,
  \<open>bool\<close>, \<open>int\<close>, \<open>float\<close> (a finite double, as the rational it denotes),
  \<open>str\<close>, \<open>list\<close> and \<open>dict\<close> (its items in order, looked up by key).
\<close>

datatype json =
    JNull
  | JBool bool
  | JInt int
  | JFloat rat
  | JStr string
  | JArr "json list"
  | JObj "(string \<times> json) list"

text \<open>
  The exceptions raised or caught by the modelled code, each with the text \<open>str(e)\<close>
  gives. \<open>RequestException\<close> stands for \<open>requests.exceptions.RequestException\<close> and
  its subclasses, \<open>PyException\<close> for a plain \<open>Exception\<close>. The messages of the errors
  that the interpreter itself raises follow CPython 3.11.
\<close>

datatype py_exception =
    ValueError string
  | TypeError string
  | AttributeError string
  | KeyError string
  | RequestException string
  | PyException string

fun str_exc :: "py_exception \<Rightarrow> string" where
  "str_exc (ValueError m) = m"
| "str_exc (TypeError m) = m"
| "str_exc (AttributeError m) = m"
| "str_exc (KeyError k) = [CHR 0x27] @ k @ [CHR 0x27]"
| "str_exc (RequestException m) = m"
| "str_exc (PyException m) = m"

fun type_name :: "json \<Rightarrow> string" where
  "type_name JNull = ''NoneType''"
| "type_name (JBool b) = ''bool''"
| "type_name (JInt i) = ''int''"
| "type_name (JFloat r) = ''float''"
| "type_name (JStr s) = ''str''"
| "type_name (JArr xs) = ''list''"
| "type_name (JObj kvs) = ''dict''"

text \<open>Truth value of a Python object, as in \<open>if x:\<close> and \<open>x or y\<close>.\<close>

fun truthy :: "json \<Rightarrow> bool" where
  "truthy JNull = False"
| "truthy (JBool b) = b"
| "truthy (JInt i) = (i \<noteq> 0)"
| "truthy (JFloat r) = (r \<noteq> 0)"
| "truthy (JStr s) = (s \<noteq> [])"
| "truthy (JArr xs) = (xs \<noteq> [])"
| "truthy (JObj kvs) = (kvs \<noteq> [])"

definition py_or :: "json \<Rightarrow> json \<Rightarrow> json" where
  "py_or x y = (if truthy x then x else y)"

text \<open>\<open>x.get(key, default)\<close>: only a \<open>dict\<close> has the method.\<close>

fun py_get :: "json \<Rightarrow> string \<Rightarrow> json \<Rightarrow> py_exception + json" where
  "py_get (JObj kvs) key dflt = Inr (case map_of kvs key of Some v \<Rightarrow> v | None \<Rightarrow> dflt)"
| "py_get x key dflt =
     Inl (AttributeError ([CHR 0x27] @ type_name x @ [CHR 0x27] @ '' object has no attribute ''
            @ [CHR 0x27] @ ''get'' @ [CHR 0x27]))"

text \<open>
  \<open>key in x\<close> for a string \<open>key\<close>: a key of a \<open>dict\<close>, an element of a \<open>list\<close>,
  a substring of a \<open>str\<close>; any other operand raises \<open>TypeError\<close>.
\<close>

fun py_in :: "string \<Rightarrow> json \<Rightarrow> py_exception + bool" where
  "py_in key (JObj kvs) = Inr (key \<in> set (map fst kvs))"
| "py_in key (JArr xs) = Inr (JStr key \<in> set xs)"
| "py_in key (JStr s) = Inr (str_contains key s)"
| "py_in key x =
     Inl (TypeError (''argument of type '' @ [CHR 0x27] @ type_name x @ [CHR 0x27]
            @ '' is not iterable''))"

text \<open>\<open>for item in x\<close>: the elements of a \<open>list\<close>, the keys of a \<open>dict\<close>, the characters of a \<open>str\<close>.\<close>

fun py_iter :: "json \<Rightarrow> py_exception + json list" where
  "py_iter (JArr xs) = Inr xs"
| "py_iter (JObj kvs) = Inr (map (\<lambda>kv. JStr (fst kv)) kvs)"
| "py_iter (JStr s) = Inr (map (\<lambda>c. JStr [c]) s)"
| "py_iter x = Inl (TypeError ([CHR 0x27] @ type_name x @ [CHR 0x27] @ '' object is not iterable''))"

text \<open>\<open>len(x)\<close>.\<close>

fun py_len :: "json \<Rightarrow> py_exception + nat" where
  "py_len (JArr xs) = Inr (length xs)"
| "py_len (JObj kvs) = Inr (length kvs)"
| "py_len (JStr s) = Inr (length s)"
| "py_len x =
     Inl (TypeError (''object of type '' @ [CHR 0x27] @ type_name x @ [CHR 0x27] @ '' has no len()''))"

text \<open>\<open>x[key]\<close> for a string \<open>key\<close>.\<close>

fun py_getitem :: "json \<Rightarrow> string \<Rightarrow> py_exception + json" where
  "py_getitem (JObj kvs) key = (case map_of kvs key of Some v \<Rightarrow> Inr v | None \<Rightarrow> Inl (KeyError key))"
| "py_getitem (JArr xs) key = Inl (TypeError ''list indices must be integers or slices, not str'')"
| "py_getitem (JStr s) key =
     Inl (TypeError (''string indices must be integers, not '' @ [CHR 0x27] @ ''str'' @ [CHR 0x27]))"
| "py_getitem x key =
     Inl (TypeError ([CHR 0x27] @ type_name x @ [CHR 0x27] @ '' object is not subscriptable''))"

text \<open>\<open>s.lower()\<close> on the ASCII letters, and \<open>task.lower()\<close> on a value that may not be a \<open>str\<close>.\<close>

definition lower_char :: "char \<Rightarrow> char" where
  "lower_char c =
     (let n = (of_char c :: nat) in if 65 \<le> n \<and> n \<le> 90 then char_of (n + 32) else c)"

definition lower :: "string \<Rightarrow> string" where
  "lower s = map lower_char s"

fun py_lower :: "json \<Rightarrow> py_exception + string" where
  "py_lower (JStr s) = Inr (lower s)"
| "py_lower x =
     Inl (AttributeError ([CHR 0x27] @ type_name x @ [CHR 0x27] @ '' object has no attribute ''
            @ [CHR 0x27] @ ''lower'' @ [CHR 0x27]))"

text \<open>\<open>str(n)\<close> of an integer, as an f-string renders it.\<close>

fun str_nat :: "nat \<Rightarrow> string" where
  "str_nat n =
     (if n < 10 then [char_of (48 + n)] else str_nat (n div 10) @ [char_of (48 + n mod 10)])"

declare str_nat.simps [simp del]

definition str_int :: "int \<Rightarrow> string" where
  "str_int i = (if i < 0 then ''-'' @ str_nat (nat (- i)) else str_nat (nat i))"

text \<open>Sequencing of two steps when the first may raise.\<close>

definition and_then :: "'e + 'a \<Rightarrow> ('a \<Rightarrow> 'e + 'b) \<Rightarrow> 'e + 'b" where
  "and_then r f = (case r of Inl e \<Rightarrow> Inl e | Inr v \<Rightarrow> f v)"

section \<open>FineTunedModelService (services/ai\_model\_service.py)\<close>

text \<open>
  The service is configured with the endpoint and the API key. A call of
  \<open>requests.post\<close> either raises or returns a response, of which the code reads
  \<open>status_code\<close> and \<open>json()\<close> (which may itself raise). What the outside world answers
  is an argument of the model; every effect on the outside world is appended to a trace.
  Output written by \<open>print\<close> is not modelled.
\<close>

record service_cfg =
  model_endpoint :: string
  api_key :: string

record post_request =
  post_url :: string
  post_json :: json
  post_headers :: "(string \<times> string) list"
  post_timeout :: nat

datatype response = Response (status_code: int) (json_result: "py_exception + json")

datatype post_outcome = PostRaises py_exception | PostReturns response

datatype event =
    NetworkPost post_request
  | SaveSchedule json json
  | LogGeneration string bool json

type_synonym trace = "event list"

definition requests_post :: "post_outcome \<Rightarrow> post_request \<Rightarrow> trace \<Rightarrow> post_outcome \<times> trace" where
  "requests_post answer req tr = (answer, tr @ [NetworkPost req])"

definition request_headers :: "service_cfg \<Rightarrow> (string \<times> string) list" where
  "request_headers cfg =
     [(''Content-Type'', ''application/json''), (''Authorization'', ''Bearer '' @ api_key cfg)]"

text \<open>The audio half of the pair \<open>generate_story\<close> returns.\<close>

datatype audio_output = AudioNone | AudioBytes bytes | AudioRaw json

definition fallback_stories :: "string list" where
  "fallback_stories =
     [''Today is a new chapter. Focus not on the mountain top, but on the single, steady step. ''
        @ ''Every small movement forward is progress. Your body is healing, and patience is your greatest strength.'',
      ''Like a river carving through stone, your consistent effort shapes your recovery. ''
        @ ''Celebrate the small victories - they are the building blocks of transformation.'',
      ''Recovery is not a race, it'' @ [CHR 0x27] @ ''s a journey of rediscovery. Each stretch, each breath, ''
        @ ''each mindful moment brings you closer to the version of yourself you'' @ [CHR 0x27]
        @ ''re becoming.'']"

text \<open>\<open>_generate_fallback_story\<close>; \<open>time_s\<close> is \<open>int(time.time())\<close>.\<close>

definition generate_fallback_story :: "int \<Rightarrow> json \<Rightarrow> json \<times> audio_output" where
  "generate_fallback_story time_s context =
     (let index = time_s mod int (length fallback_stories)
      in (JStr (fallback_stories ! nat index), AudioNone))"

definition story_request :: "service_cfg \<Rightarrow> json \<Rightarrow> post_request" where
  "story_request cfg context =
     \<lparr> post_url = model_endpoint cfg @ ''/generate'',
       post_json = JObj [(''task'', JStr ''story_generation''),
                         (''context'', context),
                         (''parameters'', JObj [(''max_length'', JInt 150),
                                                (''temperature'', JFloat (4 / 5)),
                                                (''output_format'', JStr ''both'')])],
       post_headers = request_headers cfg,
       post_timeout = 30 \<rparr>"

text \<open>
  The \<open>try\<close> block of \<open>generate_story\<close> after the response has arrived.
  \<open>b64decode\<close> is \<open>base64.b64decode\<close>, which returns the bytes or raises
  \<open>binascii.Error\<close>, a \<open>ValueError\<close>, with a message.
\<close>

definition story_from_response ::
  "(string \<Rightarrow> string + bytes) \<Rightarrow> response \<Rightarrow> py_exception + (json \<times> audio_output)" where
  "story_from_response b64decode r =
     (if status_code r = 200 then
        and_then (json_result r) (\<lambda>result.
        and_then (py_get result ''text'' (JStr [])) (\<lambda>text_output.
        and_then (py_get result ''audio'' JNull) (\<lambda>audio_data.
          if truthy audio_data then
            (case audio_data of
               JStr s \<Rightarrow>
                 (case b64decode s of
                    Inl m \<Rightarrow> Inl (ValueError m)
                  | Inr audio_bytes \<Rightarrow> Inr (text_output, AudioBytes audio_bytes))
             | _ \<Rightarrow> Inr (text_output, AudioRaw audio_data))
          else Inr (text_output, AudioNone))))
      else Inl (PyException (''Model API returned status '' @ str_int (status_code r))))"

definition generate_story ::
  "service_cfg \<Rightarrow> (string \<Rightarrow> string + bytes) \<Rightarrow> int \<Rightarrow> post_outcome \<Rightarrow> json \<Rightarrow> trace
     \<Rightarrow> (py_exception + (json \<times> audio_output)) \<times> trace" where
  "generate_story cfg b64decode time_s answer context tr =
     (let (outcome, tr') = requests_post answer (story_request cfg context) tr;
          attempt = (case outcome of
                       PostRaises e \<Rightarrow> Inl e
                     | PostReturns r \<Rightarrow> story_from_response b64decode r)
      in (case attempt of
            Inl (RequestException m) \<Rightarrow> Inr (generate_fallback_story time_s context)
          | Inl e \<Rightarrow> Inl (PyException (''Failed to generate story: '' @ str_exc e))
          | Inr out \<Rightarrow> Inr out,
          tr'))"

text \<open>The dictionary \<open>generate_schedule\<close> returns.\<close>

record schedule_result =
  schedule :: json
  metadata :: json
  confidence :: json

definition schedule_request :: "service_cfg \<Rightarrow> json \<Rightarrow> json \<Rightarrow> post_request" where
  "schedule_request cfg tasks user_profile =
     \<lparr> post_url = model_endpoint cfg @ ''/generate'',
       post_json = JObj [(''task'', JStr ''schedule_generation''),
                         (''tasks'', tasks),
                         (''user_profile'', py_or user_profile (JObj [])),
                         (''parameters'',
                            JObj [(''current_time'', JStr ''9:00 AM''),
                                  (''scheduling_rules'',
                                     JObj [(''recurring_tasks'', JArr [JStr ''Check Posture'']),
                                           (''preferred_times'',
                                              JObj [(''walk'', JStr ''afternoon''),
                                                    (''stretches'', JStr ''after_sitting'')])])])],
       post_headers = request_headers cfg,
       post_timeout = 30 \<rparr>"

text \<open>The validation loop over the items of the returned schedule.\<close>

fun validate_schedule :: "json list \<Rightarrow> py_exception + unit" where
  "validate_schedule [] = Inr ()"
| "validate_schedule (item # items) =
     and_then (py_in ''time'' item) (\<lambda>has_time.
       if \<not> has_time then Inl (ValueError ''Invalid schedule format from model'')
       else and_then (py_in ''task'' item) (\<lambda>has_task.
         if \<not> has_task then Inl (ValueError ''Invalid schedule format from model'')
         else validate_schedule items))"

definition schedule_from_response :: "response \<Rightarrow> py_exception + schedule_result" where
  "schedule_from_response r =
     (if status_code r = 200 then
        and_then (json_result r) (\<lambda>result.
        and_then (py_get result ''schedule'' (JArr [])) (\<lambda>sched.
        and_then (py_iter sched) (\<lambda>items.
        and_then (validate_schedule items) (\<lambda>_.
        and_then (py_get result ''metadata'' (JObj [])) (\<lambda>md.
        and_then (py_get result ''confidence'' (JFloat 0)) (\<lambda>conf.
          Inr \<lparr> schedule = sched, metadata = md, confidence = conf \<rparr>))))))
      else Inl (PyException (''Model API returned status '' @ str_int (status_code r))))"

text \<open>
  \<open>_generate_fallback_schedule\<close>. The time of an entry is rendered by the conditional
  expression that the source writes out at both places.
\<close>

definition time_label :: "int \<Rightarrow> string" where
  "time_label h = (if h < 12 then str_int h @ '':00 AM'' else str_int (h - 12) @ '':00 PM'')"

definition schedule_entry :: "string \<Rightarrow> json \<Rightarrow> json" where
  "schedule_entry t task = JObj [(''time'', JStr t), (''task'', task)]"

fun fallback_schedule_loop :: "json list \<Rightarrow> int \<Rightarrow> json list \<Rightarrow> py_exception + json list" where
  "fallback_schedule_loop [] current_hour sched = Inr sched"
| "fallback_schedule_loop (task # tasks) current_hour sched =
     and_then (py_lower task) (\<lambda>low.
       if str_contains ''posture'' low then
         fallback_schedule_loop tasks current_hour
           (sched @ map (\<lambda>i. schedule_entry (time_label (current_hour + i * 2)) task) [0, 1, 2])
       else if str_contains ''walk'' low then
         fallback_schedule_loop tasks current_hour (sched @ [schedule_entry ''5:00 PM'' task])
       else
         fallback_schedule_loop tasks (current_hour + 2)
           (sched @ [schedule_entry (time_label current_hour) task]))"

definition generate_fallback_schedule :: "json \<Rightarrow> py_exception + schedule_result" where
  "generate_fallback_schedule tasks =
     and_then (py_iter tasks) (\<lambda>task_list.
     and_then (fallback_schedule_loop task_list 11 []) (\<lambda>sched.
       Inr \<lparr> schedule = JArr sched,
             metadata = JObj [(''source'', JStr ''fallback'')],
             confidence = JFloat (1 / 2) \<rparr>))"

definition generate_schedule ::
  "service_cfg \<Rightarrow> post_outcome \<Rightarrow> json \<Rightarrow> json \<Rightarrow> trace
     \<Rightarrow> (py_exception + schedule_result) \<times> trace" where
  "generate_schedule cfg answer tasks user_profile tr =
     (let (outcome, tr') = requests_post answer (schedule_request cfg tasks user_profile) tr;
          attempt = (case outcome of
                       PostRaises e \<Rightarrow> Inl e
                     | PostReturns r \<Rightarrow> schedule_from_response r)
      in (case attempt of
            Inl (RequestException m) \<Rightarrow> generate_fallback_schedule tasks
          | Inl e \<Rightarrow> Inl (PyException (''Failed to generate schedule: '' @ str_exc e))
          | Inr result \<Rightarrow> Inr result,
          tr'))"

section \<open>The schedule route (routes/ai.py)\<close>

text \<open>
  \<open>TextHandler.save_schedule\<close> and \<open>TextHandler.log_generation\<close> write files; each
  write is recorded as an event of the trace, without the name and layout of the file.
  \<open>unique_id\<close> is the text of the \<open>uuid.uuid4()\<close> that \<open>save_schedule\<close> draws.
\<close>

record schedule_info =
  info_id :: string
  info_task_count :: nat

definition save_schedule ::
  "string \<Rightarrow> json \<Rightarrow> json \<Rightarrow> trace \<Rightarrow> (py_exception + schedule_info) \<times> trace" where
  "save_schedule unique_id sched meta tr =
     (if \<not> truthy sched then (Inl (ValueError ''No schedule data provided''), tr)
      else case py_len sched of
             Inl e \<Rightarrow> (Inl e, tr)
           | Inr n \<Rightarrow>
               (Inr \<lparr> info_id = take 8 unique_id, info_task_count = n \<rparr>,
                tr @ [SaveSchedule sched (py_or meta (JObj []))]))"

definition log_generation :: "string \<Rightarrow> bool \<Rightarrow> json \<Rightarrow> trace \<Rightarrow> trace" where
  "log_generation generation_type success meta tr =
     tr @ [LogGeneration generation_type success (py_or meta (JObj []))]"

type_synonym http_response = "nat \<times> json"

text \<open>
  The \<open>try\<close> block of the route \<open>generate_schedule\<close>. \<open>body\<close> is what
  \<open>request.get_json()\<close> does: it raises, or returns the parsed body (\<open>None\<close> as
  \<open>JNull\<close>).
\<close>

definition schedule_route_try ::
  "service_cfg \<Rightarrow> post_outcome \<Rightarrow> string \<Rightarrow> py_exception + json \<Rightarrow> trace
     \<Rightarrow> (py_exception + http_response) \<times> trace" where
  "schedule_route_try cfg answer unique_id body tr =
     (case body of
        Inl e \<Rightarrow> (Inl e, tr)
      | Inr data \<Rightarrow>
         (case (if \<not> truthy data then Inr True
                else and_then (py_in ''tasks'' data) (\<lambda>present. Inr (\<not> present))) of
            Inl e \<Rightarrow> (Inl e, tr)
          | Inr True \<Rightarrow>
              (Inr (400, JObj [(''error'', JStr (''Missing '' @ [CHR 0x27] @ ''tasks'' @ [CHR 0x27]
                                                  @ '' field in request body'')),
                               (''success'', JBool False)]), tr)
          | Inr False \<Rightarrow>
             (case py_getitem data ''tasks'' of
                Inl e \<Rightarrow> (Inl e, tr)
              | Inr tasks \<Rightarrow>
                 (case py_get data ''user_profile'' (JObj []) of
                    Inl e \<Rightarrow> (Inl e, tr)
                  | Inr user_profile \<Rightarrow>
                     if (case tasks of JArr xs \<Rightarrow> length xs = 0 | _ \<Rightarrow> True) then
                       (Inr (400, JObj [(''error'', JStr ''Tasks must be a non-empty array''),
                                        (''success'', JBool False)]), tr)
                     else
                       (case generate_schedule cfg answer tasks user_profile tr of
                          (Inl e, tr1) \<Rightarrow> (Inl e, tr1)
                        | (Inr result, tr1) \<Rightarrow>
                           (case save_schedule unique_id (schedule result)
                                   (JObj [(''tasks'', tasks),
                                          (''user_profile'', user_profile),
                                          (''confidence'', confidence result)]) tr1 of
                              (Inl e, tr2) \<Rightarrow> (Inl e, tr2)
                            | (Inr info, tr2) \<Rightarrow>
                               (case py_len tasks of
                                  Inl e \<Rightarrow> (Inl e, tr2)
                                | Inr task_count \<Rightarrow>
                                   (Inr (200,
                                         JObj [(''schedule'', schedule result),
                                               (''scheduleId'', JStr (info_id info)),
                                               (''taskCount'', JInt (int (info_task_count info))),
                                               (''confidence'', confidence result),
                                               (''metadata'', metadata result),
                                               (''success'', JBool True)]),
                                    log_generation ''schedule'' True
                                      (JObj [(''schedule_id'', JStr (info_id info)),
                                             (''task_count'', JInt (int task_count))]) tr2))))))))"

text \<open>The route with its two \<open>except\<close> clauses.\<close>

definition generate_schedule_route ::
  "service_cfg \<Rightarrow> post_outcome \<Rightarrow> string \<Rightarrow> py_exception + json \<Rightarrow> trace
     \<Rightarrow> http_response \<times> trace" where
  "generate_schedule_route cfg answer unique_id body tr =
     (case schedule_route_try cfg answer unique_id body tr of
        (Inr resp, tr') \<Rightarrow> (resp, tr')
      | (Inl (ValueError m), tr') \<Rightarrow>
          ((500, JObj [(''error'', JStr (''Failed to parse schedule: '' @ m)),
                       (''success'', JBool False)]),
           log_generation ''schedule'' False (JObj [(''error'', JStr m)]) tr')
      | (Inl e, tr') \<Rightarrow>
          ((500, JObj [(''error'', JStr (str_exc e)), (''success'', JBool False)]),
           log_generation ''schedule'' False (JObj [(''error'', JStr (str_exc e))]) tr'))"

section \<open>Predicates used to state the properties\<close>

text \<open>An entry that the sweep removes: a regular file older than the cutoff.\<close>

definition expired :: "int \<Rightarrow> entry \<Rightarrow> bool" where
  "expired cutoff e = (case e of File data mt \<Rightarrow> mt < cutoff | NotAFile \<Rightarrow> False)"

definition swept :: "int \<Rightarrow> string \<times> entry \<Rightarrow> bool" where
  "swept cutoff p =
     ((endswith (fst p) ''.wav'' \<or> endswith (fst p) ''.mp3'') \<and> expired cutoff (snd p))"

text \<open>A task whose name contains "posture", and a schedule entry made for such a task.\<close>

definition is_posture :: "string \<Rightarrow> bool" where
  "is_posture t = str_contains ''posture'' (lower t)"

definition is_posture_entry :: "json \<Rightarrow> bool" where
  "is_posture_entry e =
     (case e of
        JObj kvs \<Rightarrow> (case map_of kvs ''task'' of Some (JStr t) \<Rightarrow> is_posture t | _ \<Rightarrow> False)
      | _ \<Rightarrow> False)"

text \<open>
  A schedule entry carries its fields when it is an object with both a \<open>time\<close> and a
  \<open>task\<close> key; any other entry (an object without one of the keys, and every string,
  list, number, boolean and null) lacks a field.
\<close>

definition has_fields :: "json \<Rightarrow> bool" where
  "has_fields item =
     (case item of
        JObj kvs \<Rightarrow> ''time'' \<in> set (map fst kvs) \<and> ''task'' \<in> set (map fst kvs)
      | _ \<Rightarrow> False)"

definition lacks_field :: "json \<Rightarrow> bool" where
  "lacks_field item = (\<not> has_fields item)"

definition is_object :: "json \<Rightarrow> bool" where
  "is_object item = (case item of JObj kvs \<Rightarrow> True | _ \<Rightarrow> False)"

text \<open>A service configuration for the evaluations at concrete inputs.\<close>

definition example_cfg :: service_cfg where
  "example_cfg = \<lparr> model_endpoint = ''http://localhost:8000/api/model'', api_key = [] \<rparr>"

text \<open>A store with files of several ages, and the same store after a sweep.\<close>

definition example_fs :: audio_fs where
  "example_fs =
     \<lparr> temp_dir = [(''a.wav'', File [1] 0), (''b.mp3'', File [2] 7200000000),
                   (''c.ogg'', File [3] 0), (''d.wav'', File [4] 3600000000)],
       permanent_dir = [(''p.wav'', File [5] 0)] \<rparr>"

definition example_fs_swept :: audio_fs where
  "example_fs_swept =
     \<lparr> temp_dir = [(''b.mp3'', File [2] 7200000000),
                   (''c.ogg'', File [3] 0), (''d.wav'', File [4] 3600000000)],
       permanent_dir = [(''p.wav'', File [5] 0)] \<rparr>"

section \<open>Facts about the audio store\<close>

lemma endswith_iff_append: "endswith s suf \<longleftrightarrow> (\<exists>p. s = p @ suf)"
proof
  assume "endswith s suf"
  then have "s = take (length s - length suf) s @ suf"
    by (metis append_take_drop_id endswith_def)
  then show "\<exists>p. s = p @ suf" ..
next
  assume "\<exists>p. s = p @ suf"
  then show "endswith s suf" by (auto simp: endswith_def)
qed

lemma endswith_append: "endswith (p @ suf) suf"
  by (simp add: endswith_def)

lemma map_of_filter_distinct:
  "distinct (map fst d) \<Longrightarrow>
   map_of (filter P d) n = (case map_of d n of None \<Rightarrow> None | Some e \<Rightarrow> if P (n, e) then Some e else None)"
proof (induction d)
  case Nil
  then show ?case by simp
next
  case (Cons p d)
  obtain k v where p: "p = (k, v)" by (cases p)
  from Cons.prems p have notin: "k \<notin> fst ` set d" by simp
  then have none: "map_of d k = None" by (simp add: map_of_eq_None_iff)
  have none': "map_of (filter P d) k = None"
    using notin by (force simp: map_of_eq_None_iff)
  from Cons p none none' show ?case by (auto split: option.splits)
qed

lemma write_file_lookup:
  "write_file d name data now = Inr d' \<Longrightarrow> map_of d' name = Some (File data now)"
  by (auto simp: write_file_def update_conv' split: option.splits entry.splits)

lemma save_audio_name:
  "save_audio fs now uid data arg perm fmt = Inr (md, fs') \<Longrightarrow>
   filename md =
     (case arg of None \<Rightarrow> ''audio_'' @ uid @ ''.'' @ fmt
      | Some f \<Rightarrow> if f = [] then ''audio_'' @ uid @ ''.'' @ fmt
                  else if \<not> endswith f (''.'' @ fmt) then f @ ''.'' @ fmt else f)"
  by (auto simp: save_audio_def Let_def split: if_splits sum.splits option.splits)

lemma save_audio_stored:
  "save_audio fs now uid data arg perm fmt = Inr (md, fs') \<Longrightarrow>
   map_of (if perm then permanent_dir fs' else temp_dir fs') (filename md) = Some (File data now)
   \<and> (if perm then temp_dir fs' = temp_dir fs else permanent_dir fs' = permanent_dir fs)
   \<and> permanent md = perm"
  by (auto simp: save_audio_def Let_def split: if_splits sum.splits dest: write_file_lookup)

lemma endswith_twice:
  assumes "endswith (f @ ext) (ext @ ext)"
  shows "endswith f ext"
proof -
  from assms have len: "length ext \<le> length f" by (simp add: endswith_def)
  from assms have "drop (length f - length ext) (f @ ext) = ext @ ext"
    using len by (simp add: endswith_def)
  then have "drop (length f - length ext) f @ ext = ext @ ext"
    using len by simp
  then show ?thesis using len by (simp add: endswith_def)
qed

lemma delete_filter: "AList.delete k d = filter (\<lambda>(n, e). n \<noteq> k) d"
  by (auto simp: AList.delete_eq intro: filter_cong)

lemma length_delete_present:
  "distinct (map fst d) \<Longrightarrow> map_of d k = Some v \<Longrightarrow> Suc (length (AList.delete k d)) = length d"
proof (induction d)
  case Nil
  then show ?case by simp
next
  case (Cons p d)
  obtain n e where p: "p = (n, e)" by (cases p)
  show ?case
  proof (cases "n = k")
    case True
    with Cons.prems p have "k \<notin> fst ` set d" by auto
    then have "AList.delete k d = d" by simp
    with True p show ?thesis by simp
  next
    case False
    with Cons p show ?thesis by simp
  qed
qed

lemma cleanup_loop_dir:
  "distinct (map fst d) \<Longrightarrow>
   fst (cleanup_loop cutoff names d c) =
     filter (\<lambda>(n, e). \<not> (n \<in> set names \<and> expired cutoff e)) d"
proof (induction names arbitrary: d c)
  case Nil
  then show ?case by simp
next
  case (Cons name names)
  have val: "map_of d n = Some e" if "(n, e) \<in> set d" for n e
    using that Cons.prems by simp
  show ?case
  proof (cases "\<exists>data mt. map_of d name = Some (File data mt) \<and> mt < cutoff")
    case True
    then obtain data mt where m: "map_of d name = Some (File data mt)" "mt < cutoff" by blast
    have dd: "distinct (map fst (AList.delete name d))"
      using Cons.prems by (rule distinct_delete)
    have "fst (cleanup_loop cutoff (name # names) d c) =
            fst (cleanup_loop cutoff names (AList.delete name d) (c + 1))"
      using m by simp
    also have "\<dots> = filter (\<lambda>(n, e). \<not> (n \<in> set names \<and> expired cutoff e)) (AList.delete name d)"
      using dd by (rule Cons.IH)
    also have "\<dots> = filter (\<lambda>(n, e). \<not> (n \<in> set (name # names) \<and> expired cutoff e)) d"
    proof -
      have "expired cutoff e" if "(name, e) \<in> set d" for e
        using val [OF that] m by (auto simp: expired_def)
      then show ?thesis
        unfolding delete_filter filter_filter by (intro filter_cong) auto
    qed
    finally show ?thesis .
  next
    case False
    have "fst (cleanup_loop cutoff (name # names) d c) = fst (cleanup_loop cutoff names d c)"
      using False by (auto split: option.splits entry.splits)
    also have "\<dots> = filter (\<lambda>(n, e). \<not> (n \<in> set names \<and> expired cutoff e)) d"
      using Cons.prems by (rule Cons.IH)
    also have "\<dots> = filter (\<lambda>(n, e). \<not> (n \<in> set (name # names) \<and> expired cutoff e)) d"
    proof -
      have "\<not> expired cutoff e" if "(name, e) \<in> set d" for e
        using val [OF that] False by (auto simp: expired_def split: entry.splits)
      then show ?thesis
        by (intro filter_cong) auto
    qed
    finally show ?thesis .
  qed
qed

lemma cleanup_loop_count:
  "distinct (map fst d) \<Longrightarrow>
   snd (cleanup_loop cutoff names d c) + length (fst (cleanup_loop cutoff names d c)) = c + length d"
proof (induction names arbitrary: d c)
  case Nil
  then show ?case by simp
next
  case (Cons name names)
  show ?case
  proof (cases "\<exists>data mt. map_of d name = Some (File data mt) \<and> mt < cutoff")
    case True
    then obtain data mt where m: "map_of d name = Some (File data mt)" "mt < cutoff" by blast
    have dd: "distinct (map fst (AList.delete name d))"
      using Cons.prems by (rule distinct_delete)
    from length_delete_present [OF Cons.prems m(1)] Cons.IH [OF dd, of "c + 1"] m
    show ?thesis by simp
  next
    case False
    then have "cleanup_loop cutoff (name # names) d c = cleanup_loop cutoff names d c"
      by (auto split: option.splits entry.splits)
    with Cons.IH [OF Cons.prems, of c] show ?thesis by simp
  qed
qed

lemma glob_suffix_set: "(n, e) \<in> set d \<Longrightarrow> n \<in> set (glob_suffix d suf) \<longleftrightarrow> endswith n suf"
  by (force simp: glob_suffix_def)

lemma cleanup_temp_files_char:
  assumes dist: "distinct (map fst (temp_dir fs))"
  shows "cleanup_temp_files fs now h =
           (length (filter (swept (now - h * 3600000000)) (temp_dir fs)),
            fs\<lparr>temp_dir := filter (\<lambda>p. \<not> swept (now - h * 3600000000) p) (temp_dir fs)\<rparr>)"
proof -
  define cutoff where "cutoff = now - h * 3600000000"
  define d where "d = temp_dir fs"
  define r1 where "r1 = cleanup_loop cutoff (glob_suffix d ''.wav'') d 0"
  define r2 where "r2 = cleanup_loop cutoff (glob_suffix (fst r1) ''.mp3'') (fst r1) (snd r1)"
  have dd: "distinct (map fst d)" using dist by (simp add: d_def)
  have d1: "fst r1 = filter (\<lambda>(n, e). \<not> (endswith n ''.wav'' \<and> expired cutoff e)) d"
    unfolding r1_def cleanup_loop_dir [OF dd]
    by (intro filter_cong) (auto simp: glob_suffix_set)
  have dd1: "distinct (map fst (fst r1))"
    unfolding d1 using dd by (rule distinct_map_filter)
  have "fst r2 = filter (\<lambda>(n, e). \<not> (endswith n ''.mp3'' \<and> expired cutoff e)) (fst r1)"
    unfolding r2_def cleanup_loop_dir [OF dd1]
    by (intro filter_cong) (auto simp: glob_suffix_set)
  then have d2: "fst r2 = filter (\<lambda>p. \<not> swept cutoff p) d"
    unfolding d1 filter_filter by (auto simp: swept_def intro!: filter_cong)
  have "snd r1 + length (fst r1) = length d"
    unfolding r1_def using cleanup_loop_count [OF dd, of cutoff _ 0] by simp
  moreover have "snd r2 + length (fst r2) = snd r1 + length (fst r1)"
    unfolding r2_def using cleanup_loop_count [OF dd1] by simp
  moreover have "length (filter (swept cutoff) d) + length (filter (\<lambda>p. \<not> swept cutoff p) d) = length d"
    by (rule sum_length_filter_compl)
  ultimately have c2: "snd r2 = length (filter (swept cutoff) d)"
    using d2 by simp
  have "cleanup_temp_files fs now h = (snd r2, fs\<lparr>temp_dir := fst r2\<rparr>)"
    by (simp add: cleanup_temp_files_def Let_def r2_def r1_def d_def cutoff_def split: prod.splits)
  then show ?thesis
    using c2 d2 by (simp add: cutoff_def d_def)
qed

section \<open>Properties of the audio store\<close>

text \<open>
  C1. A non-empty byte sequence saved with \<open>permanent = False\<close> and without a file name
  is stored, unless the generated name is taken by something that is not a regular file;
  \<open>get_audio\<close> with the file name of the returned metadata then gives back the same
  bytes, and the file is an entry of the temp directory while the permanent directory is
  as before.
\<close>

theorem save_then_get_audio:
  assumes "audio_data \<noteq> []"
    and "map_of (temp_dir fs) (''audio_'' @ unique_id @ ''.'' @ fmt) \<noteq> Some NotAFile"
  shows "\<exists>md fs'. save_audio fs now unique_id audio_data None False fmt = Inr (md, fs')
           \<and> get_audio fs' (filename md) = Inr (Some audio_data)
           \<and> map_of (temp_dir fs') (filename md) = Some (File audio_data now)
           \<and> permanent_dir fs' = permanent_dir fs
           \<and> relative_path md = ''audio_outputs/temp/'' @ filename md"
proof -
  let ?name = "''audio_'' @ unique_id @ ''.'' @ fmt"
  let ?d = "AList.update ?name (File audio_data now) (temp_dir fs)"
  have w: "write_file (temp_dir fs) ?name audio_data now = Inr ?d"
    using assms(2) by (auto simp: write_file_def split: option.splits entry.splits)
  have look: "map_of ?d ?name = Some (File audio_data now)"
    by (simp add: update_conv')
  show ?thesis
    using assms(1) w look
    by (simp add: save_audio_def Let_def get_audio_def read_file_def)
qed

theorem save_then_get_audio_witness:
  "[1, 2, 3] \<noteq> ([] :: bytes)
   \<and> map_of (temp_dir \<lparr>temp_dir = [(''old.wav'', File [7] 5)], permanent_dir = []\<rparr>)
        (''audio_'' @ ''u1'' @ ''.'' @ ''wav'') \<noteq> Some NotAFile
   \<and> (\<exists>md fs'. save_audio \<lparr>temp_dir = [(''old.wav'', File [7] 5)], permanent_dir = []\<rparr> 10 ''u1''
                [1, 2, 3] None False ''wav'' = Inr (md, fs')
           \<and> get_audio fs' (filename md) = Inr (Some [1, 2, 3])
           \<and> map_of (temp_dir fs') (filename md) = Some (File [1, 2, 3] 10)
           \<and> permanent_dir fs' = []
           \<and> relative_path md = ''audio_outputs/temp/'' @ filename md)"
  using save_then_get_audio [of "[1, 2, 3]" "\<lparr>temp_dir = [(''old.wav'', File [7] 5)], permanent_dir = []\<rparr>"
      "''u1''" "''wav''" 10]
  by simp

text \<open>
  C8. When a caller gives a file name, the stored file name ends with
  \<open>.<format>\<close>: a non-empty name without that ending gets it appended once (the result
  does not end with the extension twice), and a name that already has the ending is
  stored unchanged. The file is written under the stored name.
\<close>

theorem save_audio_extension_once:
  assumes "save_audio fs now unique_id audio_data (Some f) perm fmt = Inr (md, fs')"
  shows "endswith (filename md) (''.'' @ fmt)
         \<and> (f \<noteq> [] \<and> \<not> endswith f (''.'' @ fmt) \<longrightarrow>
              filename md = f @ ''.'' @ fmt \<and> \<not> endswith (filename md) ((''.'' @ fmt) @ (''.'' @ fmt)))
         \<and> (endswith f (''.'' @ fmt) \<longrightarrow> filename md = f)
         \<and> map_of (if perm then permanent_dir fs' else temp_dir fs') (filename md)
              = Some (File audio_data now)"
proof -
  have e1: "endswith (''audio_'' @ unique_id @ ''.'' @ fmt) (''.'' @ fmt)"
    using endswith_append [of "''audio_'' @ unique_id" "''.'' @ fmt"] by simp
  have e2: "endswith (f @ ''.'' @ fmt) (''.'' @ fmt)"
    using endswith_append [of f "''.'' @ fmt"] by simp
  have e3: "\<not> endswith (f @ ''.'' @ fmt) ((''.'' @ fmt) @ (''.'' @ fmt))" if "\<not> endswith f (''.'' @ fmt)"
    using that endswith_twice [of f "''.'' @ fmt"] by auto
  have ne: "f \<noteq> []" if "endswith f (''.'' @ fmt)"
    using that by (auto simp: endswith_def)
  from save_audio_name [OF assms]
  have n: "filename md = (if f = [] then ''audio_'' @ unique_id @ ''.'' @ fmt
                          else if \<not> endswith f (''.'' @ fmt) then f @ ''.'' @ fmt else f)"
    by simp
  from save_audio_stored [OF assms]
  have st: "map_of (if perm then permanent_dir fs' else temp_dir fs') (filename md)
              = Some (File audio_data now)" by simp
  show ?thesis
    using n e1 e2 e3 ne st by auto
qed

theorem save_audio_extension_once_witness:
  "save_audio \<lparr>temp_dir = [], permanent_dir = []\<rparr> 3 ''u1'' [9] (Some ''story_ab12'') False ''wav''
     = Inr (\<lparr>filename = ''story_ab12.wav'', relative_path = ''audio_outputs/temp/story_ab12.wav'',
              url = ''/api/audio/story_ab12.wav'', format = ''wav'', size_bytes = 1, permanent = False\<rparr>,
            \<lparr>temp_dir = [(''story_ab12.wav'', File [9] 3)], permanent_dir = []\<rparr>)
   \<and> ''story_ab12'' \<noteq> [] \<and> \<not> endswith ''story_ab12'' (''.'' @ ''wav'')
   \<and> endswith ''story_ab12.wav'' (''.'' @ ''wav'')
   \<and> \<not> endswith ''story_ab12.wav'' ((''.'' @ ''wav'') @ (''.'' @ ''wav''))"
proof -
  have run: "save_audio \<lparr>temp_dir = [], permanent_dir = []\<rparr> 3 ''u1'' [9] (Some ''story_ab12'') False ''wav''
     = Inr (\<lparr>filename = ''story_ab12.wav'', relative_path = ''audio_outputs/temp/story_ab12.wav'',
              url = ''/api/audio/story_ab12.wav'', format = ''wav'', size_bytes = 1, permanent = False\<rparr>,
            \<lparr>temp_dir = [(''story_ab12.wav'', File [9] 3)], permanent_dir = []\<rparr>)"
    by (simp add: save_audio_def write_file_def endswith_def Let_def)
  have lacks: "\<not> endswith ''story_ab12'' (''.'' @ ''wav'')"
    by (simp add: endswith_def)
  from save_audio_extension_once [OF run] lacks run show ?thesis by simp
qed

text \<open>
  C9 (as amended). For every successful \<open>save_audio\<close> call the \<open>url\<close> of the returned
  metadata is \<open>/api/audio/<filename>\<close>, with the file name under which the data is stored.
\<close>

theorem save_audio_url:
  assumes "save_audio fs now unique_id audio_data filename_arg perm fmt = Inr (md, fs')"
  shows "url md = ''/api/audio/'' @ filename md
         \<and> map_of (if perm then permanent_dir fs' else temp_dir fs') (filename md)
              = Some (File audio_data now)"
proof -
  have "url md = ''/api/audio/'' @ filename md"
    using assms by (auto simp: save_audio_def Let_def split: if_splits sum.splits)
  with save_audio_stored [OF assms] show ?thesis by simp
qed

theorem save_audio_url_witness:
  "save_audio \<lparr>temp_dir = [], permanent_dir = []\<rparr> 0 ''u1'' [1] None True ''mp3''
     = Inr (\<lparr>filename = ''audio_u1.mp3'', relative_path = ''audio_outputs/permanent/audio_u1.mp3'',
              url = ''/api/audio/audio_u1.mp3'', format = ''mp3'', size_bytes = 1, permanent = True\<rparr>,
            \<lparr>temp_dir = [], permanent_dir = [(''audio_u1.mp3'', File [1] 0)]\<rparr>)
   \<and> ''/api/audio/audio_u1.mp3'' = ''/api/audio/'' @ ''audio_u1.mp3''"
proof -
  have run: "save_audio \<lparr>temp_dir = [], permanent_dir = []\<rparr> 0 ''u1'' [1] None True ''mp3''
     = Inr (\<lparr>filename = ''audio_u1.mp3'', relative_path = ''audio_outputs/permanent/audio_u1.mp3'',
              url = ''/api/audio/audio_u1.mp3'', format = ''mp3'', size_bytes = 1, permanent = True\<rparr>,
            \<lparr>temp_dir = [], permanent_dir = [(''audio_u1.mp3'', File [1] 0)]\<rparr>)"
    by (simp add: save_audio_def write_file_def Let_def)
  from save_audio_url [OF run] run show ?thesis by simp
qed

text \<open>
  C9 as stated fails: the \<open>url\<close> returned for the file \<open>audio_u1.wav\<close> is
  \<open>/api/audio/audio_u1.wav\<close>, which is not \<open>/audio/audio_u1.wav\<close>.
\<close>

theorem save_audio_url_counterexample:
  "save_audio \<lparr>temp_dir = [], permanent_dir = []\<rparr> 0 ''u1'' [1] None False ''wav''
     = Inr (\<lparr>filename = ''audio_u1.wav'', relative_path = ''audio_outputs/temp/audio_u1.wav'',
              url = ''/api/audio/audio_u1.wav'', format = ''wav'', size_bytes = 1, permanent = False\<rparr>,
            \<lparr>temp_dir = [(''audio_u1.wav'', File [1] 0)], permanent_dir = []\<rparr>)
   \<and> ''/api/audio/audio_u1.wav'' \<noteq> ''/audio/'' @ ''audio_u1.wav''"
  by (simp add: save_audio_def write_file_def Let_def)

text \<open>
  C2. In a temp directory with one entry per name, \<open>cleanup_temp_files\<close> deletes a
  regular file whose name ends in \<open>.wav\<close> or \<open>.mp3\<close> exactly when the time since its
  last modification is strictly more than \<open>max_age_hours\<close> hours; an entry that is
  still present is unchanged; the returned count is the number of entries of the
  directory that are gone afterwards; and with \<open>max_age_hours = 0\<close> a file modified at
  the instant of the sweep is kept.
\<close>

theorem cleanup_temp_files_strict_age:
  assumes dist: "distinct (map fst (temp_dir fs))"
    and run: "cleanup_temp_files fs now max_age_hours = (deleted_count, fs')"
  shows "(\<forall>name data mt.
            map_of (temp_dir fs) name = Some (File data mt)
              \<and> (endswith name ''.wav'' \<or> endswith name ''.mp3'') \<longrightarrow>
            (map_of (temp_dir fs') name = None) = (now - mt > max_age_hours * 3600000000))
         \<and> (\<forall>name e. map_of (temp_dir fs) name = Some e \<and> map_of (temp_dir fs') name \<noteq> None \<longrightarrow>
               map_of (temp_dir fs') name = Some e)
         \<and> deleted_count = length (filter (\<lambda>(name, e). map_of (temp_dir fs') name = None) (temp_dir fs))
         \<and> (\<forall>name data. max_age_hours = 0 \<and> map_of (temp_dir fs) name = Some (File data now) \<longrightarrow>
               map_of (temp_dir fs') name = Some (File data now))"
proof -
  define cutoff where "cutoff = now - max_age_hours * 3600000000"
  from cleanup_temp_files_char [OF dist, of now max_age_hours] run
  have cnt: "deleted_count = length (filter (swept cutoff) (temp_dir fs))"
    and dir: "temp_dir fs' = filter (\<lambda>p. \<not> swept cutoff p) (temp_dir fs)"
    by (auto simp: cutoff_def)
  have look: "map_of (temp_dir fs') n =
      (case map_of (temp_dir fs) n of None \<Rightarrow> None
       | Some e \<Rightarrow> if \<not> swept cutoff (n, e) then Some e else None)" for n
    unfolding dir by (rule map_of_filter_distinct [OF dist])
  have A: "(map_of (temp_dir fs') name = None) = (now - mt > max_age_hours * 3600000000)"
    if "map_of (temp_dir fs) name = Some (File data mt)"
       "endswith name ''.wav'' \<or> endswith name ''.mp3''" for name data mt
    using that by (auto simp: look swept_def expired_def cutoff_def)
  have B: "map_of (temp_dir fs') name = Some e"
    if "map_of (temp_dir fs) name = Some e" "map_of (temp_dir fs') name \<noteq> None" for name e
    using that by (auto simp: look split: if_splits)
  have "filter (\<lambda>(name, e). map_of (temp_dir fs') name = None) (temp_dir fs)
          = filter (swept cutoff) (temp_dir fs)"
  proof (rule filter_cong [OF refl])
    fix x assume xd: "x \<in> set (temp_dir fs)"
    obtain n e where x: "x = (n, e)" by (cases x)
    with xd dist have "map_of (temp_dir fs) n = Some e" by simp
    then show "(case x of (name, e) \<Rightarrow> map_of (temp_dir fs') name = None) = swept cutoff x"
      using x by (simp add: look)
  qed
  with cnt have C: "deleted_count =
      length (filter (\<lambda>(name, e). map_of (temp_dir fs') name = None) (temp_dir fs))"
    by simp
  have D: "map_of (temp_dir fs') name = Some (File data now)"
    if "max_age_hours = 0" "map_of (temp_dir fs) name = Some (File data now)" for name data
    using that by (auto simp: look swept_def expired_def cutoff_def)
  from A B C D show ?thesis by blast
qed

theorem cleanup_temp_files_strict_age_witness:
  "distinct (map fst (temp_dir example_fs))
   \<and> cleanup_temp_files example_fs 7200000000 1 = (1, example_fs_swept)
   \<and> map_of (temp_dir example_fs) ''a.wav'' = Some (File [1] 0)
   \<and> map_of (temp_dir example_fs) ''d.wav'' = Some (File [4] 3600000000)
   \<and> (map_of (temp_dir example_fs_swept) ''a.wav'' = None) = (7200000000 - 0 > 1 * (3600000000 :: int))
   \<and> (map_of (temp_dir example_fs_swept) ''d.wav'' = None)
        = (7200000000 - 3600000000 > 1 * (3600000000 :: int))
   \<and> (1 :: nat) = length (filter (\<lambda>(name, e). map_of (temp_dir example_fs_swept) name = None)
                            (temp_dir example_fs))"
proof -
  have d: "distinct (map fst (temp_dir example_fs))"
    by (simp add: example_fs_def)
  have run: "cleanup_temp_files example_fs 7200000000 1 = (1, example_fs_swept)"
    by (simp add: example_fs_def example_fs_swept_def cleanup_temp_files_def glob_suffix_def
          endswith_def)
  have a: "map_of (temp_dir example_fs) ''a.wav'' = Some (File [1] 0)"
    by (simp add: example_fs_def)
  have a': "endswith ''a.wav'' ''.wav'' \<or> endswith ''a.wav'' ''.mp3''"
    by (simp add: endswith_def)
  have b: "map_of (temp_dir example_fs) ''d.wav'' = Some (File [4] 3600000000)"
    by (simp add: example_fs_def)
  have b': "endswith ''d.wav'' ''.wav'' \<or> endswith ''d.wav'' ''.mp3''"
    by (simp add: endswith_def)
  note T = cleanup_temp_files_strict_age [OF d run]
  from T have files: "\<forall>name data mt.
            map_of (temp_dir example_fs) name = Some (File data mt)
              \<and> (endswith name ''.wav'' \<or> endswith name ''.mp3'') \<longrightarrow>
            (map_of (temp_dir example_fs_swept) name = None) = (7200000000 - mt > 1 * 3600000000)"
    by (rule conjunct1)
  from files a a' have A:
    "(map_of (temp_dir example_fs_swept) ''a.wav'' = None) = (7200000000 - 0 > 1 * (3600000000 :: int))"
    by blast
  from files b b' have B:
    "(map_of (temp_dir example_fs_swept) ''d.wav'' = None)
        = (7200000000 - 3600000000 > 1 * (3600000000 :: int))"
    by blast
  from T have C: "(1 :: nat) = length (filter (\<lambda>(name, e). map_of (temp_dir example_fs_swept) name = None)
                            (temp_dir example_fs))"
    by (elim conjE)
  from d run a b A B C show ?thesis by (intro conjI)
qed

text \<open>
  C3. \<open>cleanup_temp_files\<close> leaves the permanent directory as it is, for every content of
  the two directories and every \<open>max_age_hours\<close>; and it does not read the permanent
  directory: with another permanent directory it returns the same count and the same
  temp directory.
\<close>

theorem cleanup_temp_files_permanent_untouched:
  "permanent_dir (snd (cleanup_temp_files fs now max_age_hours)) = permanent_dir fs
   \<and> cleanup_temp_files (fs\<lparr>permanent_dir := p\<rparr>) now max_age_hours =
       (fst (cleanup_temp_files fs now max_age_hours),
        (snd (cleanup_temp_files fs now max_age_hours))\<lparr>permanent_dir := p\<rparr>)"
  by (simp add: cleanup_temp_files_def Let_def split: prod.splits)

section \<open>Facts about the generation service\<close>

lemma lower_check_posture: "lower ''Check Posture'' = ''check posture''"
  by code_simp

lemma time_label_values: "time_label 11 = ''11:00 AM''" "time_label 13 = ''1:00 PM''" "time_label 15 = ''3:00 PM''"
  by code_simp+

lemma check_posture_contains: "str_contains ''posture'' ''check posture''"
  by code_simp

lemma posture_entry_of_task [simp]:
  "is_posture_entry (schedule_entry x (JStr t)) = is_posture t"
  by (simp add: is_posture_entry_def schedule_entry_def)

lemma fallback_schedule_loop_filter:
  "\<exists>out. fallback_schedule_loop (map JStr ts) h acc = Inr (acc @ out)
         \<and> fallback_schedule_loop (map JStr (filter (\<lambda>t. \<not> is_posture t) ts)) h acc'
             = Inr (acc' @ filter (\<lambda>e. \<not> is_posture_entry e) out)"
proof (induction ts arbitrary: h acc acc')
  case Nil
  then show ?case by simp
next
  case (Cons t ts)
  show ?case
  proof (cases "is_posture t")
    case True
    let ?three = "map (\<lambda>i. schedule_entry (time_label (h + i * 2)) (JStr t)) [0, 1, 2]"
    from Cons.IH [of h "acc @ ?three" acc'] obtain out where
      l: "fallback_schedule_loop (map JStr ts) h (acc @ ?three) = Inr ((acc @ ?three) @ out)" and
      r: "fallback_schedule_loop (map JStr (filter (\<lambda>t. \<not> is_posture t) ts)) h acc'
             = Inr (acc' @ filter (\<lambda>e. \<not> is_posture_entry e) out)"
      by blast
    have "fallback_schedule_loop (map JStr (t # ts)) h acc = Inr (acc @ (?three @ out))"
      using True l by (simp add: and_then_def is_posture_def)
    moreover have "fallback_schedule_loop (map JStr (filter (\<lambda>t. \<not> is_posture t) (t # ts))) h acc'
             = Inr (acc' @ filter (\<lambda>e. \<not> is_posture_entry e) (?three @ out))"
      using True r by simp
    ultimately show ?thesis by blast
  next
    case False
    show ?thesis
    proof (cases "str_contains ''walk'' (lower t)")
      case True
      let ?e = "schedule_entry ''5:00 PM'' (JStr t)"
      from Cons.IH [of h "acc @ [?e]" "acc' @ [?e]"] obtain out where
        l: "fallback_schedule_loop (map JStr ts) h (acc @ [?e]) = Inr ((acc @ [?e]) @ out)" and
        r: "fallback_schedule_loop (map JStr (filter (\<lambda>t. \<not> is_posture t) ts)) h (acc' @ [?e])
               = Inr ((acc' @ [?e]) @ filter (\<lambda>e. \<not> is_posture_entry e) out)"
        by blast
      have "fallback_schedule_loop (map JStr (t # ts)) h acc = Inr (acc @ (?e # out))"
        using False True l by (simp add: and_then_def is_posture_def)
      moreover have "fallback_schedule_loop (map JStr (filter (\<lambda>t. \<not> is_posture t) (t # ts))) h acc'
               = Inr (acc' @ filter (\<lambda>e. \<not> is_posture_entry e) (?e # out))"
        using False True r by (simp add: and_then_def is_posture_def)
      ultimately show ?thesis by blast
    next
      case nowalk: False
      let ?e = "schedule_entry (time_label h) (JStr t)"
      from Cons.IH [of "h + 2" "acc @ [?e]" "acc' @ [?e]"] obtain out where
        l: "fallback_schedule_loop (map JStr ts) (h + 2) (acc @ [?e]) = Inr ((acc @ [?e]) @ out)" and
        r: "fallback_schedule_loop (map JStr (filter (\<lambda>t. \<not> is_posture t) ts)) (h + 2) (acc' @ [?e])
               = Inr ((acc' @ [?e]) @ filter (\<lambda>e. \<not> is_posture_entry e) out)"
        by blast
      have "fallback_schedule_loop (map JStr (t # ts)) h acc = Inr (acc @ (?e # out))"
        using False nowalk l by (simp add: and_then_def is_posture_def)
      moreover have "fallback_schedule_loop (map JStr (filter (\<lambda>t. \<not> is_posture t) (t # ts))) h acc'
               = Inr (acc' @ filter (\<lambda>e. \<not> is_posture_entry e) (?e # out))"
        using False nowalk r by (simp add: and_then_def is_posture_def)
      ultimately show ?thesis by blast
    qed
  qed
qed

lemma fallback_index_in_pool:
  "nat (t mod int (length fallback_stories)) < length fallback_stories"
  by (simp add: fallback_stories_def)

lemma generate_schedule_posts:
  "snd (generate_schedule cfg answer tasks user_profile tr) =
     tr @ [NetworkPost (schedule_request cfg tasks user_profile)]"
  by (simp add: generate_schedule_def requests_post_def Let_def)

lemma validate_schedule_lacking:
  "\<exists>item \<in> set items. is_object item \<and> lacks_field item \<Longrightarrow>
   \<exists>m. validate_schedule items = Inl (ValueError m) \<or> validate_schedule items = Inl (TypeError m)"
proof (induction items)
  case Nil
  then show ?case by simp
next
  case (Cons item items)
  show ?case
  proof (cases "\<exists>i \<in> set items. is_object i \<and> lacks_field i")
    case True
    from Cons.IH [OF True] show ?thesis
      by (cases item) (auto simp: and_then_def)
  next
    case False
    with Cons.prems have "is_object item \<and> lacks_field item" by simp
    then show ?thesis
      by (cases item) (auto simp: and_then_def lacks_field_def has_fields_def is_object_def)
  qed
qed

lemma validate_schedule_objects:
  "\<exists>item \<in> set items. lacks_field item \<Longrightarrow> \<forall>item \<in> set items. is_object item \<Longrightarrow>
   validate_schedule items = Inl (ValueError ''Invalid schedule format from model'')"
proof (induction items)
  case Nil
  then show ?case by simp
next
  case (Cons item items)
  from Cons.prems(2) obtain kvs where item: "item = JObj kvs"
    by (cases item) (auto simp: is_object_def)
  show ?case
  proof (cases "lacks_field item")
    case True
    then show ?thesis using item by (auto simp: and_then_def lacks_field_def has_fields_def)
  next
    case False
    with Cons.prems have "\<exists>i \<in> set items. lacks_field i" "\<forall>i \<in> set items. is_object i" by auto
    from Cons.IH [OF this] False item show ?thesis
      by (auto simp: and_then_def lacks_field_def has_fields_def)
  qed
qed

lemma generate_schedule_invalid:
  assumes "schedule_from_response r = Inl e" and "e = ValueError m \<or> e = TypeError m"
  shows "generate_schedule cfg (PostReturns r) tasks user_profile tr =
           (Inl (PyException (''Failed to generate schedule: '' @ m)),
            tr @ [NetworkPost (schedule_request cfg tasks user_profile)])"
  using assms by (auto simp: generate_schedule_def requests_post_def Let_def)

lemma object_entry_without_field_is_fatal:
  assumes sched: "py_get result ''schedule'' (JArr []) = Inr (JArr items)"
    and lacking: "\<exists>item \<in> set items. is_object item \<and> lacks_field item"
  shows "(\<exists>msg. generate_schedule cfg (PostReturns (Response 200 (Inr result))) tasks user_profile tr =
            (Inl (PyException (''Failed to generate schedule: '' @ msg)),
             tr @ [NetworkPost (schedule_request cfg tasks user_profile)]))
         \<and> ((\<forall>item \<in> set items. is_object item) \<longrightarrow>
              generate_schedule cfg (PostReturns (Response 200 (Inr result))) tasks user_profile tr =
                (Inl (PyException
                        (''Failed to generate schedule: '' @ ''Invalid schedule format from model'')),
                 tr @ [NetworkPost (schedule_request cfg tasks user_profile)]))"
proof -
  have resp: "schedule_from_response (Response 200 (Inr result)) = Inl e"
    if "validate_schedule items = Inl e" for e
    using that sched by (simp add: schedule_from_response_def and_then_def)
  from lacking have some: "\<exists>item \<in> set items. lacks_field item"
    by blast
  from validate_schedule_lacking [OF lacking] obtain m where
    v: "validate_schedule items = Inl (ValueError m) \<or> validate_schedule items = Inl (TypeError m)"
    by blast
  then have first: "generate_schedule cfg (PostReturns (Response 200 (Inr result))) tasks user_profile tr =
            (Inl (PyException (''Failed to generate schedule: '' @ m)),
             tr @ [NetworkPost (schedule_request cfg tasks user_profile)])"
    using resp generate_schedule_invalid by blast
  have second: "generate_schedule cfg (PostReturns (Response 200 (Inr result))) tasks user_profile tr =
                (Inl (PyException
                        (''Failed to generate schedule: '' @ ''Invalid schedule format from model'')),
                 tr @ [NetworkPost (schedule_request cfg tasks user_profile)])"
    if "\<forall>item \<in> set items. is_object item"
    using resp [OF validate_schedule_objects [OF some that]]
    by (rule generate_schedule_invalid) simp
  from first second show ?thesis by blast
qed

lemma route_nonempty_tasks_posts:
  assumes "map_of kvs ''tasks'' = Some (JArr (t # ts))"
  shows "NetworkPost (schedule_request cfg (JArr (t # ts))
                        (case map_of kvs ''user_profile'' of Some v \<Rightarrow> v | None \<Rightarrow> JObj []))
           \<in> set (snd (generate_schedule_route cfg answer unique_id (Inr (JObj kvs)) tr))"
proof -
  from assms have mem: "''tasks'' \<in> set (map fst kvs)"
    by (metis map_of_eq_None_iff option.distinct(1) set_map)
  then have ne: "kvs \<noteq> []" by auto
  let ?up = "case map_of kvs ''user_profile'' of Some v \<Rightarrow> v | None \<Rightarrow> JObj []"
  obtain res where g: "generate_schedule cfg answer (JArr (t # ts)) ?up tr =
      (res, tr @ [NetworkPost (schedule_request cfg (JArr (t # ts)) ?up)])"
    using generate_schedule_posts [of cfg answer "JArr (t # ts)" ?up tr]
    by (cases "generate_schedule cfg answer (JArr (t # ts)) ?up tr") simp
  show ?thesis
    using assms mem ne g
    by (auto simp: generate_schedule_route_def schedule_route_try_def and_then_def
          save_schedule_def log_generation_def
          split: sum.splits py_exception.splits prod.splits if_splits)
qed

section \<open>Properties of the generation service\<close>

text \<open>
  C4. When \<open>requests.post\<close> raises a \<open>RequestException\<close> (connection refused, DNS
  failure, timeout), \<open>generate_story\<close> returns the text of the fixed pool of stories
  at index current time modulo pool size, with no audio. When the endpoint answers with
  a status other than 200, \<open>generate_story\<close> raises an exception that names the status,
  and does not fall back. In both cases the one request was posted.
\<close>

theorem generate_story_failure_modes:
  "generate_story cfg b64decode time_s (PostRaises (RequestException m)) context tr =
     (Inr (JStr (fallback_stories ! nat (time_s mod int (length fallback_stories))), AudioNone),
      tr @ [NetworkPost (story_request cfg context)])
   \<and> fallback_stories ! nat (time_s mod int (length fallback_stories)) \<in> set fallback_stories
   \<and> (sc \<noteq> 200 \<longrightarrow>
        generate_story cfg b64decode time_s (PostReturns (Response sc body)) context tr =
          (Inl (PyException (''Failed to generate story: Model API returned status '' @ str_int sc)),
           tr @ [NetworkPost (story_request cfg context)]))"
proof -
  have "fallback_stories ! nat (time_s mod int (length fallback_stories)) \<in> set fallback_stories"
    using fallback_index_in_pool by (rule nth_mem)
  then show ?thesis
    by (simp add: generate_story_def requests_post_def generate_fallback_story_def
          story_from_response_def Let_def)
qed

theorem generate_story_failure_modes_witness:
  "(500 :: int) \<noteq> 200
   \<and> generate_story \<lparr>model_endpoint = ''http://m'', api_key = ''k''\<rparr> (\<lambda>s. Inr []) 7
        (PostReturns (Response 500 (Inr JNull))) (JObj []) [] =
       (Inl (PyException (''Failed to generate story: Model API returned status '' @ str_int 500)),
        [] @ [NetworkPost (story_request \<lparr>model_endpoint = ''http://m'', api_key = ''k''\<rparr> (JObj []))])"
  using generate_story_failure_modes [of "\<lparr>model_endpoint = ''http://m'', api_key = ''k''\<rparr>"
      "\<lambda>s. Inr []" 7 _ "JObj []" "[]" 500 "Inr JNull"]
  by simp

text \<open>
  C5. The claim requires an error whenever an entry of the returned schedule lacks a
  \<open>time\<close> or a \<open>task\<close> field. The validation tests \<open>'time' in item\<close> and
  \<open>'task' in item\<close>, which is a test of the keys only for an object: an entry that is
  the string \<open>time task\<close>, or the list of the two strings \<open>time\<close> and \<open>task\<close>, has
  no field at all and passes. With status 200 and such a schedule, \<open>generate_schedule\<close>
  returns the schedule as a success.
\<close>

theorem schedule_validation_accepts_non_object_entries:
  "lacks_field (JStr ''time task'')
   \<and> generate_schedule example_cfg
        (PostReturns (Response 200 (Inr (JObj [(''schedule'', JArr [JStr ''time task''])]))))
        (JArr [JStr ''Walk'']) JNull [] =
       (Inr \<lparr> schedule = JArr [JStr ''time task''], metadata = JObj [], confidence = JFloat 0 \<rparr>,
        [NetworkPost (schedule_request example_cfg (JArr [JStr ''Walk'']) JNull)])
   \<and> lacks_field (JArr [JStr ''time'', JStr ''task''])
   \<and> generate_schedule example_cfg
        (PostReturns (Response 200 (Inr (JObj [(''schedule'', JArr [JArr [JStr ''time'', JStr ''task'']])]))))
        (JArr [JStr ''Walk'']) JNull [] =
       (Inr \<lparr> schedule = JArr [JArr [JStr ''time'', JStr ''task'']], metadata = JObj [],
              confidence = JFloat 0 \<rparr>,
        [NetworkPost (schedule_request example_cfg (JArr [JStr ''Walk'']) JNull)])"
proof -
  have l1: "lacks_field (JStr ''time task'')"
    by (simp add: lacks_field_def has_fields_def)
  have l2: "lacks_field (JArr [JStr ''time'', JStr ''task''])"
    by (simp add: lacks_field_def has_fields_def)
  have v1: "validate_schedule [JStr ''time task''] = Inr ()"
    by (simp add: and_then_def startswith_def)
  have v2: "validate_schedule [JArr [JStr ''time'', JStr ''task'']] = Inr ()"
    by (simp add: and_then_def)
  have r1: "schedule_from_response (Response 200 (Inr (JObj [(''schedule'', JArr [JStr ''time task''])])))
              = Inr \<lparr> schedule = JArr [JStr ''time task''], metadata = JObj [], confidence = JFloat 0 \<rparr>"
    by (simp add: schedule_from_response_def and_then_def v1 del: validate_schedule.simps)
  have r2: "schedule_from_response
              (Response 200 (Inr (JObj [(''schedule'', JArr [JArr [JStr ''time'', JStr ''task'']])])))
              = Inr \<lparr> schedule = JArr [JArr [JStr ''time'', JStr ''task'']], metadata = JObj [],
                      confidence = JFloat 0 \<rparr>"
    by (simp add: schedule_from_response_def and_then_def v2 del: validate_schedule.simps)
  have g1: "generate_schedule example_cfg
        (PostReturns (Response 200 (Inr (JObj [(''schedule'', JArr [JStr ''time task''])]))))
        (JArr [JStr ''Walk'']) JNull [] =
       (Inr \<lparr> schedule = JArr [JStr ''time task''], metadata = JObj [], confidence = JFloat 0 \<rparr>,
        [NetworkPost (schedule_request example_cfg (JArr [JStr ''Walk'']) JNull)])"
    by (simp add: generate_schedule_def requests_post_def Let_def r1)
  have g2: "generate_schedule example_cfg
        (PostReturns (Response 200 (Inr (JObj [(''schedule'', JArr [JArr [JStr ''time'', JStr ''task'']])]))))
        (JArr [JStr ''Walk'']) JNull [] =
       (Inr \<lparr> schedule = JArr [JArr [JStr ''time'', JStr ''task'']], metadata = JObj [],
              confidence = JFloat 0 \<rparr>,
        [NetworkPost (schedule_request example_cfg (JArr [JStr ''Walk'']) JNull)])"
    by (simp add: generate_schedule_def requests_post_def Let_def r2)
  from l1 g1 l2 g2 show ?thesis by (intro conjI)
qed

text \<open>
  C6. The fallback scheduler applied to the task list \<open>["Check Posture"]\<close> yields
  exactly three entries, each with task \<open>Check Posture\<close>, at 11:00 AM, 1:00 PM and
  3:00 PM: two hours apart from the base hour 11, the hours 13 and 15 rendered as PM.
\<close>

theorem fallback_check_posture:
  "generate_fallback_schedule (JArr [JStr ''Check Posture'']) =
     Inr \<lparr> schedule = JArr [JObj [(''time'', JStr ''11:00 AM''), (''task'', JStr ''Check Posture'')],
                             JObj [(''time'', JStr ''1:00 PM''), (''task'', JStr ''Check Posture'')],
                             JObj [(''time'', JStr ''3:00 PM''), (''task'', JStr ''Check Posture'')]],
           metadata = JObj [(''source'', JStr ''fallback'')],
           confidence = JFloat (1 / 2) \<rparr>"
proof -
  have loop: "fallback_schedule_loop [JStr ''Check Posture''] 11 [] =
      Inr [schedule_entry (time_label (11 + 0 * 2)) (JStr ''Check Posture''),
           schedule_entry (time_label (11 + 1 * 2)) (JStr ''Check Posture''),
           schedule_entry (time_label (11 + 2 * 2)) (JStr ''Check Posture'')]"
    using check_posture_contains by (simp add: and_then_def lower_check_posture del: str_contains.simps)
  show ?thesis
    by (simp add: generate_fallback_schedule_def and_then_def loop time_label_values schedule_entry_def
          del: fallback_schedule_loop.simps)
qed

text \<open>
  C7 (as amended). A request to the schedule route (the function \<open>generate_schedule\<close> of
  routes/ai.py) whose body has an empty \<open>tasks\<close> list is answered with status 400 and
  the error "Tasks must be a non-empty array", and the trace is as before: the service
  has not been called and no request has been posted to the generation endpoint.
\<close>

theorem empty_tasks_rejected_before_network:
  assumes "map_of kvs ''tasks'' = Some (JArr [])"
  shows "generate_schedule_route cfg answer unique_id (Inr (JObj kvs)) tr =
           ((400, JObj [(''error'', JStr ''Tasks must be a non-empty array''),
                        (''success'', JBool False)]),
            tr)"
proof -
  from assms have mem: "''tasks'' \<in> set (map fst kvs)"
    by (metis map_of_eq_None_iff option.distinct(1) set_map)
  then have ne: "kvs \<noteq> []" by auto
  have "schedule_route_try cfg answer unique_id (Inr (JObj kvs)) tr =
          (Inr (400, JObj [(''error'', JStr ''Tasks must be a non-empty array''),
                           (''success'', JBool False)]), tr)"
    using assms mem ne by (simp add: schedule_route_try_def and_then_def)
  then show ?thesis
    by (simp add: generate_schedule_route_def)
qed

theorem empty_tasks_rejected_before_network_witness:
  "map_of [(''tasks'', JArr [])] ''tasks'' = Some (JArr [])
   \<and> generate_schedule_route \<lparr>model_endpoint = ''http://m'', api_key = ''k''\<rparr>
        (PostRaises (RequestException ''down'')) ''0123abcd-ef'' (Inr (JObj [(''tasks'', JArr [])])) [] =
       ((400, JObj [(''error'', JStr ''Tasks must be a non-empty array''), (''success'', JBool False)]),
        [])"
proof -
  have m: "map_of [(''tasks'', JArr [])] ''tasks'' = Some (JArr [])"
    by simp
  from empty_tasks_rejected_before_network [OF m] m show ?thesis
    by (intro conjI)
qed

text \<open>
  C7 as stated fails for the service method \<open>generate_schedule\<close>, which has no check of
  its own: called with the empty task list while the endpoint is unreachable, it posts
  the request and returns the empty fallback schedule, not an error.
\<close>

theorem service_posts_on_empty_tasks_counterexample:
  "generate_schedule example_cfg (PostRaises (RequestException ''connection refused''))
     (JArr []) JNull [] =
     (Inr \<lparr> schedule = JArr [], metadata = JObj [(''source'', JStr ''fallback'')],
            confidence = JFloat (1 / 2) \<rparr>,
      [NetworkPost (schedule_request example_cfg (JArr []) JNull)])"
  by (simp add: generate_schedule_def requests_post_def Let_def generate_fallback_schedule_def
        and_then_def)

text \<open>
  C10. In the fallback scheduler a task whose name contains "posture" does not move the
  hour cursor: for every list of task names, the entries of the non-posture tasks, in
  order and with their times, are the schedule of the list without its posture tasks.
\<close>

theorem posture_tasks_keep_cursor:
  "\<exists>sched sched'.
      generate_fallback_schedule (JArr (map JStr tasks)) =
        Inr \<lparr> schedule = JArr sched, metadata = JObj [(''source'', JStr ''fallback'')],
              confidence = JFloat (1 / 2) \<rparr>
    \<and> generate_fallback_schedule (JArr (map JStr (filter (\<lambda>t. \<not> is_posture t) tasks))) =
        Inr \<lparr> schedule = JArr sched', metadata = JObj [(''source'', JStr ''fallback'')],
              confidence = JFloat (1 / 2) \<rparr>
    \<and> filter (\<lambda>e. \<not> is_posture_entry e) sched = sched'"
proof -
  from fallback_schedule_loop_filter [of tasks 11 "[]" "[]"] obtain out where
    l: "fallback_schedule_loop (map JStr tasks) 11 [] = Inr out" and
    r: "fallback_schedule_loop (map JStr (filter (\<lambda>t. \<not> is_posture t) tasks)) 11 []
          = Inr (filter (\<lambda>e. \<not> is_posture_entry e) out)"
    by auto
  show ?thesis
    by (simp add: generate_fallback_schedule_def and_then_def l r
          del: fallback_schedule_loop.simps)
qed

end
